theory Spec2Isabelle
  imports Complex_Main
begin

section \<open>Python values\<close>

text \<open>
  The two Flask applications \<^verbatim>\<open>app.py\<close> (code generation) and \<^verbatim>\<open>app_v2.py\<close> (news
  writing) read a JSON body, build crewai objects, run them and answer with JSON.
  A parsed JSON body is a Python value of one of six kinds. Numbers are integers here;
  floating-point numbers are left out. A \<open>dict\<close> is an association list, read from the
  left. Texts are Isabelle strings: a character stands for a code point below 256.
\<close>

datatype json =
    JNull
  | JBool bool
  | JInt int
  | JStr string
  | JArr "json list"
  | JObj "(string \<times> json) list"

text \<open>An exception is known by its text \<open>str(e)\<close>; all of them derive from \<open>Exception\<close>.\<close>

datatype py_exception = Exception (message: string)

text \<open>Truth value of a Python value, as \<open>if not x\<close> tests it.\<close>

fun truthy :: "json \<Rightarrow> bool" where
  "truthy JNull = False"
| "truthy (JBool b) = b"
| "truthy (JInt n) = (n \<noteq> 0)"
| "truthy (JStr s) = (s \<noteq> [])"
| "truthy (JArr xs) = (xs \<noteq> [])"
| "truthy (JObj kvs) = (kvs \<noteq> [])"

text \<open>
  \<open>os.getenv\<close> gives a \<open>str\<close> or \<open>None\<close>; both \<open>None\<close> and the empty string are false
  as a condition.
\<close>

definition str_truthy :: "string option \<Rightarrow> bool" where
  "str_truthy v = (case v of None \<Rightarrow> False | Some s \<Rightarrow> s \<noteq> [])"

text \<open>The text of a credential that is set.\<close>

definition the_str :: "string option \<Rightarrow> string" where
  "the_str v = (case v of None \<Rightarrow> [] | Some s \<Rightarrow> s)"

text \<open>\<open>type(v).__name__\<close>, as the text of an \<open>AttributeError\<close> shows it.\<close>

fun type_name :: "json \<Rightarrow> string" where
  "type_name JNull = ''NoneType''"
| "type_name (JBool b) = ''bool''"
| "type_name (JInt n) = ''int''"
| "type_name (JStr s) = ''str''"
| "type_name (JArr xs) = ''list''"
| "type_name (JObj kvs) = ''dict''"

text \<open>
  \<open>data.get(key, default)\<close>: only a \<open>dict\<close> has the method; on any other value the
  attribute lookup raises \<open>AttributeError\<close>.
\<close>

fun py_get :: "json \<Rightarrow> string \<Rightarrow> json \<Rightarrow> py_exception + json" where
  "py_get (JObj kvs) k d =
     Inr (case map_of kvs k of None \<Rightarrow> d | Some v \<Rightarrow> v)"
| "py_get v k d =
     Inl (Exception ([CHR 0x27] @ type_name v @ [CHR 0x27] @
                     '' object has no attribute '' @ [CHR 0x27] @ ''get'' @ [CHR 0x27]))"

text \<open>Field of a JSON object, for reading a response.\<close>

fun field :: "json \<Rightarrow> string \<Rightarrow> json option" where
  "field (JObj kvs) k = map_of kvs k"
| "field v k = None"

subsection \<open>The string methods the handlers use\<close>

text \<open>
  \<open>str.isspace\<close> on code points below 256: tab to carriage return, the four separators
  0x1C to 0x1F, the space, NEL (0x85) and the no-break space (0xA0).
\<close>

definition py_isspace :: "char \<Rightarrow> bool" where
  "py_isspace c =
     (let n = (of_char c :: nat)
      in (9 \<le> n \<and> n \<le> 13) \<or> (28 \<le> n \<and> n \<le> 32) \<or> n = 133 \<or> n = 160)"

text \<open>
  \<open>s.split()\<close> without argument: the maximal runs of characters that are not
  whitespace, in order; no empty word. \<open>split_ws cur s\<close> carries the word being read.
\<close>

fun split_ws :: "string \<Rightarrow> string \<Rightarrow> string list" where
  "split_ws cur [] = (if cur = [] then [] else [cur])"
| "split_ws cur (c # cs) =
     (if py_isspace c
      then (if cur = [] then split_ws [] cs else cur # split_ws [] cs)
      else split_ws (cur @ [c]) cs)"

definition py_split :: "string \<Rightarrow> string list" where
  "py_split s = split_ws [] s"

text \<open>\<open>s.count('\n')\<close>: the number of newline characters.\<close>

definition count_newlines :: "string \<Rightarrow> nat" where
  "count_newlines s = length (filter (\<lambda>c. c = CHR 0x0A) s)"

text \<open>
  \<open>s.upper()\<close> on ASCII letters; other characters are kept. (No character below 256
  outside \<open>a\<close> to \<open>z\<close> has an upper case containing a letter of \<open>API\<close> or \<open>MODEL\<close>, so
  the two tests below read the same on such texts.)
\<close>

definition upper_char :: "char \<Rightarrow> char" where
  "upper_char c =
     (let n = (of_char c :: nat)
      in if 97 \<le> n \<and> n \<le> 122 then char_of (n - 32) else c)"

definition py_upper :: "string \<Rightarrow> string" where
  "py_upper s = map upper_char s"

text \<open>\<open>pat in s\<close> on strings: \<open>pat\<close> occurs in \<open>s\<close> as a contiguous piece.\<close>

fun starts_with :: "string \<Rightarrow> string \<Rightarrow> bool" where
  "starts_with [] s = True"
| "starts_with (p # ps) [] = False"
| "starts_with (p # ps) (c # cs) = (p = c \<and> starts_with ps cs)"

fun py_in :: "string \<Rightarrow> string \<Rightarrow> bool" where
  "py_in pat [] = (pat = [])"
| "py_in pat (c # cs) = (starts_with pat (c # cs) \<or> py_in pat cs)"

section \<open>The crewai objects\<close>

text \<open>
  The keyword arguments of \<open>LLM(...)\<close>, \<open>Agent(...)\<close>, \<open>Task(...)\<close> and \<open>Crew(...)\<close>. An
  object is modelled by the arguments it was built from. An argument that may hold
  \<open>None\<close> is an option; an argument that is not passed is \<open>None\<close>. The literal
  \<open>0.7\<close> is the fraction it denotes.
\<close>

record llm_args =
  model :: string
  llm_api_key :: string
  temperature :: rat

datatype llm = LLM llm_args | LLM_dict llm_args

record agent =
  role :: string
  goal :: string
  backstory :: string
  agent_verbose :: bool
  allow_delegation :: "bool option"
  agent_llm :: llm

record task =
  description :: string
  agent :: "agent option"
  expected_output :: string

datatype process = sequential | hierarchical

record crew =
  agents :: "agent option list"
  tasks :: "task list"
  process :: process
  crew_verbose :: bool

text \<open>
  What \<open>crew.kickoff()\<close> returns: a \<open>CrewOutput\<close> object holding the final text (always
  true as a condition), or, in older releases of the library, the text itself (a \<open>str\<close>,
  false when empty).
\<close>

datatype kickoff_result = CrewOutput string | Str string

fun result_str :: "kickoff_result \<Rightarrow> string" where
  "result_str (CrewOutput s) = s"
| "result_str (Str s) = s"

fun result_truthy :: "kickoff_result \<Rightarrow> bool" where
  "result_truthy (CrewOutput s) = True"
| "result_truthy (Str s) = (s \<noteq> [])"

subsection \<open>The library and the interpreter, as seen from the applications\<close>

text \<open>
  The constructors and the executor belong to the crewai library, \<open>repr\<close> to the
  interpreter. A constructor either accepts its arguments (\<open>None\<close>) or raises;
  \<open>kickoff\<close> raises or returns the result of the last task.
\<close>

record runtime =
  py_repr :: "json \<Rightarrow> string"
  LLM_init :: "llm_args \<Rightarrow> py_exception option"
  Agent_init :: "agent \<Rightarrow> py_exception option"
  Task_init :: "task \<Rightarrow> py_exception option"
  Crew_init :: "crew \<Rightarrow> py_exception option"
  kickoff :: "crew \<Rightarrow> py_exception + kickoff_result"

text \<open>\<open>str(v)\<close>, as an f-string formats a value: a \<open>str\<close> is itself.\<close>

definition py_str :: "runtime \<Rightarrow> json \<Rightarrow> string" where
  "py_str rt v = (case v of JStr s \<Rightarrow> s | _ \<Rightarrow> py_repr rt v)"

text \<open>
  Every call into the library is recorded, in order, whether it raises or not: a
  computation is its outcome and the calls it made.
\<close>

datatype call =
    LLM_call llm_args
  | Agent_call agent
  | Task_call task
  | Crew_call crew
  | kickoff_call crew

type_synonym 'a run = "(py_exception + 'a) \<times> call list"

definition ok :: "'a \<Rightarrow> 'a run" where
  "ok x = (Inr x, [])"

definition pure :: "py_exception + 'a \<Rightarrow> 'a run" where
  "pure r = (r, [])"

text \<open>One statement after another: an exception skips the rest.\<close>

fun andthen :: "'a run \<Rightarrow> ('a \<Rightarrow> 'b run) \<Rightarrow> 'b run" where
  "andthen (Inl e, cs) f = (Inl e, cs)"
| "andthen (Inr x, cs) f = (case f x of (r, cs') \<Rightarrow> (r, cs @ cs'))"

definition new_LLM :: "runtime \<Rightarrow> llm_args \<Rightarrow> llm run" where
  "new_LLM rt a =
     ((case LLM_init rt a of Some e \<Rightarrow> Inl e | None \<Rightarrow> Inr (LLM a)), [LLM_call a])"

definition Agent :: "runtime \<Rightarrow> agent \<Rightarrow> agent run" where
  "Agent rt a =
     ((case Agent_init rt a of Some e \<Rightarrow> Inl e | None \<Rightarrow> Inr a), [Agent_call a])"

definition Task :: "runtime \<Rightarrow> task \<Rightarrow> task run" where
  "Task rt t =
     ((case Task_init rt t of Some e \<Rightarrow> Inl e | None \<Rightarrow> Inr t), [Task_call t])"

definition Crew :: "runtime \<Rightarrow> crew \<Rightarrow> crew run" where
  "Crew rt c =
     ((case Crew_init rt c of Some e \<Rightarrow> Inl e | None \<Rightarrow> Inr c), [Crew_call c])"

definition crew_kickoff :: "runtime \<Rightarrow> crew \<Rightarrow> kickoff_result run" where
  "crew_kickoff rt c = (kickoff rt c, [kickoff_call c])"

text \<open>A request, as far as the handlers read it: what \<open>request.get_json()\<close> gives.\<close>

record http_request =
  get_json :: "py_exception + json"

type_synonym response = "json \<times> nat"

section \<open>The code generation application (\<^verbatim>\<open>app.py\<close>)\<close>

subsection \<open>Module level: the credential, the model handle and the eight agents\<close>

text \<open>The arguments of the eight \<open>Agent(...)\<close> calls of the module.\<close>

definition flowchart_agent_args :: "llm \<Rightarrow> agent" where
  "flowchart_agent_args l =
     \<lparr>role = ''Flowchart Generator'',
      goal = ''Create detailed flowcharts and visual representations of '' @
             ''application logic'',
      backstory =
        ''You are an expert system analyst who creates clear, comprehensive '' @
        ''flowcharts and diagrams to visualize application workflow and logic.'',
      agent_verbose = True,
      allow_delegation = Some False,
      agent_llm = l\<rparr>"

definition choice_provider_agent_args :: "llm \<Rightarrow> agent" where
  "choice_provider_agent_args l =
     \<lparr>role = ''Technology Choice Provider'',
      goal = ''Recommend the best technology stack based on requirements'',
      backstory =
        ''You are a senior architect who evaluates requirements and recommends '' @
        ''optimal technology choices between Streamlit, Flask with HTML/CSS, or '' @
        ''pure HTML/CSS solutions.'',
      agent_verbose = True,
      allow_delegation = Some False,
      agent_llm = l\<rparr>"

definition architecture_agent_args :: "llm \<Rightarrow> agent" where
  "architecture_agent_args l =
     \<lparr>role = ''System Architecture Designer'',
      goal = ''Design comprehensive system architecture based on chosen technology'',
      backstory =
        ''You are a system architect who creates detailed technical architecture, '' @
        ''including file structure, component relationships, and system design '' @
        ''patterns.'',
      agent_verbose = True,
      allow_delegation = Some False,
      agent_llm = l\<rparr>"

definition code_generator_agent_args :: "llm \<Rightarrow> agent" where
  "code_generator_agent_args l =
     \<lparr>role = ''Code Generator'',
      goal = ''Generate complete, functional code based on architecture specifications'',
      backstory =
        ''You are an expert full-stack developer who writes clean, efficient, and '' @
        ''well-structured code in multiple programming languages and frameworks.'',
      agent_verbose = True,
      allow_delegation = Some False,
      agent_llm = l\<rparr>"

definition design_enhancer_agent_args :: "llm \<Rightarrow> agent" where
  "design_enhancer_agent_args l =
     \<lparr>role = ''Design & Animation Enhancer'',
      goal = ''Enhance code with modern UI/UX, animations, and advanced features'',
      backstory =
        ''You are a creative frontend developer who specializes in modern UI/UX '' @
        ''design, CSS animations, and interactive user experiences.'',
      agent_verbose = True,
      allow_delegation = Some False,
      agent_llm = l\<rparr>"

definition error_fixer_agent_args :: "llm \<Rightarrow> agent" where
  "error_fixer_agent_args l =
     \<lparr>role = ''Code Error Fixer'',
      goal = ''Identify and fix all errors, bugs, and issues in the code'',
      backstory =
        ''You are a debugging expert who systematically identifies and resolves '' @
        ''code errors, ensuring clean, bug-free, and optimized code.'',
      agent_verbose = True,
      allow_delegation = Some False,
      agent_llm = l\<rparr>"

definition testing_agent_args :: "llm \<Rightarrow> agent" where
  "testing_agent_args l =
     \<lparr>role = ''Code Testing Specialist'',
      goal = ''Test code thoroughly to ensure error-free execution and proper '' @
             ''functionality'',
      backstory =
        ''You are a QA engineer who creates comprehensive test cases, validates '' @
        ''functionality, and ensures code reliability and performance.'',
      agent_verbose = True,
      allow_delegation = Some False,
      agent_llm = l\<rparr>"

definition delivery_agent_args :: "llm \<Rightarrow> agent" where
  "delivery_agent_args l =
     \<lparr>role = ''Code Delivery Specialist'',
      goal = ''Package and present the final code solution with proper documentation'',
      backstory =
        ''You are a technical documentation expert who organizes, formats, and '' @
        ''presents code solutions with clear instructions, architecture diagrams, '' @
        ''and user guides.'',
      agent_verbose = True,
      allow_delegation = Some False,
      agent_llm = l\<rparr>"

text \<open>The globals of the module once it is loaded.\<close>

record code_app =
  api_key :: "string option"
  llm :: llm
  flowchart_agent :: agent
  choice_provider_agent :: agent
  architecture_agent :: agent
  code_generator_agent :: agent
  design_enhancer_agent :: agent
  error_fixer_agent :: agent
  testing_agent :: agent
  delivery_agent :: agent

text \<open>
  Loading the module. \<open>getenv\<close> is the value of \<open>os.getenv("GEMINI_API_KEY")\<close>:
  \<open>None\<close> when the variable is not set. Without a credential the module raises
  \<open>ValueError\<close> and the application never serves a request.
\<close>

definition load_app :: "runtime \<Rightarrow> string option \<Rightarrow> code_app run" where
  "load_app rt getenv =
     (if \<not> str_truthy getenv
      then pure (Inl (Exception ''GEMINI_API_KEY not found in environment variables''))
      else
            andthen (new_LLM rt \<lparr>model = ''gemini/gemini-1.5-flash'',
                                   llm_api_key = the_str getenv,
                                   temperature = 7 / 10\<rparr>) (\<lambda>llm.
            andthen (Agent rt (flowchart_agent_args llm)) (\<lambda>flowchart_agent.
            andthen (Agent rt (choice_provider_agent_args llm)) (\<lambda>choice_provider_agent.
            andthen (Agent rt (architecture_agent_args llm)) (\<lambda>architecture_agent.
            andthen (Agent rt (code_generator_agent_args llm)) (\<lambda>code_generator_agent.
            andthen (Agent rt (design_enhancer_agent_args llm)) (\<lambda>design_enhancer_agent.
            andthen (Agent rt (error_fixer_agent_args llm)) (\<lambda>error_fixer_agent.
            andthen (Agent rt (testing_agent_args llm)) (\<lambda>testing_agent.
            andthen (Agent rt (delivery_agent_args llm)) (\<lambda>delivery_agent.
              ok \<lparr>api_key = getenv,
                  llm = llm,
                  flowchart_agent = flowchart_agent,
                  choice_provider_agent = choice_provider_agent,
                  architecture_agent = architecture_agent,
                  code_generator_agent = code_generator_agent,
                  design_enhancer_agent = design_enhancer_agent,
                  error_fixer_agent = error_fixer_agent,
                  testing_agent = testing_agent,
                  delivery_agent = delivery_agent\<rparr>))))))))))"

subsection \<open>The pipeline builder \<open>create_code_generation_crew\<close>\<close>

text \<open>
  The arguments of the eight \<open>Task(...)\<close> calls. The first four descriptions are
  f-strings over the inputs; the last four are fixed.
\<close>

definition flowchart_task_args :: "runtime \<Rightarrow> code_app \<Rightarrow> json \<Rightarrow> json \<Rightarrow> task" where
  "flowchart_task_args rt app project_description requirements =
     \<lparr>description =
        ''Create a detailed flowchart for the project: '' @
        py_str rt project_description @
        ''\<newline>'' @
        ''        \<newline>'' @
        ''        Requirements: '' @
        py_str rt requirements @
        ''\<newline>'' @
        ''        \<newline>'' @
        ''        Generate:\<newline>'' @
        ''        1. Application workflow diagram\<newline>'' @
        ''        2. User interaction flow\<newline>'' @
        ''        3. Data flow diagram\<newline>'' @
        ''        4. Component relationship diagram\<newline>'' @
        ''        5. Process flow with decision points\<newline>'' @
        ''        \<newline>'' @
        ''        Provide a detailed textual representation of the flowchart.'',
      agent = Some (flowchart_agent app),
      expected_output =
        ''A comprehensive flowchart description with all workflow components and '' @
        ''relationships.''\<rparr>"

definition choice_task_args :: "runtime \<Rightarrow> code_app \<Rightarrow> json \<Rightarrow> json \<Rightarrow> task" where
  "choice_task_args rt app project_description requirements =
     \<lparr>description =
        ''Analyze the project requirements and recommend the best technology stack:\<newline>'' @
        ''        \<newline>'' @
        ''        Project: '' @
        py_str rt project_description @
        ''\<newline>'' @
        ''        Requirements: '' @
        py_str rt requirements @
        ''\<newline>'' @
        ''        \<newline>'' @
        ''        Available Options:\<newline>'' @
        ''        1. Streamlit (for data-focused, rapid prototyping)\<newline>'' @
        ''        2. Flask with HTML/CSS (for full-stack web applications)\<newline>'' @
        ''        3. Pure HTML/CSS/JavaScript (for frontend-only solutions)\<newline>'' @
        ''        \<newline>'' @
        ''        Provide:\<newline>'' @
        ''        1. Recommended technology choice with reasoning\<newline>'' @
        ''        2. Pros and cons of the chosen technology\<newline>'' @
        ''        3. Alternative options if applicable\<newline>'' @
        ''        4. Required dependencies and setup'',
      agent = Some (choice_provider_agent app),
      expected_output =
        ''Technology recommendation with detailed justification and setup '' @
        ''requirements.''\<rparr>"

definition architecture_task_args :: "runtime \<Rightarrow> code_app \<Rightarrow> json \<Rightarrow> task" where
  "architecture_task_args rt app project_description =
     \<lparr>description =
        ''Design comprehensive system architecture based on the chosen technology:\<newline>'' @
        ''        \<newline>'' @
        ''        Project: '' @
        py_str rt project_description @
        ''\<newline>'' @
        ''        Technology Choice: [From previous task]\<newline>'' @
        ''        \<newline>'' @
        ''        Create:\<newline>'' @
        ''        1. Detailed file structure\<newline>'' @
        ''        2. Component architecture\<newline>'' @
        ''        3. Database design (if needed)\<newline>'' @
        ''        4. API endpoints (if applicable)\<newline>'' @
        ''        5. Security considerations\<newline>'' @
        ''        6. Deployment strategy\<newline>'' @
        ''        7. Configuration requirements'',
      agent = Some (architecture_agent app),
      expected_output =
        ''Complete system architecture with file structure, components, and '' @
        ''technical specifications.''\<rparr>"

definition code_generation_task_args :: "runtime \<Rightarrow> code_app \<Rightarrow> json \<Rightarrow> task" where
  "code_generation_task_args rt app project_description =
     \<lparr>description =
        ''Generate complete, functional code based on the architecture:\<newline>'' @
        ''        \<newline>'' @
        ''        Project: '' @
        py_str rt project_description @
        ''\<newline>'' @
        ''        Architecture: [From previous task]\<newline>'' @
        ''        \<newline>'' @
        ''        Generate:\<newline>'' @
        ''        1. All necessary code files\<newline>'' @
        ''        2. Configuration files\<newline>'' @
        ''        3. Requirements/dependencies\<newline>'' @
        ''        4. Database schemas (if needed)\<newline>'' @
        ''        5. API implementations\<newline>'' @
        ''        6. Frontend components\<newline>'' @
        ''        7. Main application logic\<newline>'' @
        ''        \<newline>'' @
        ''        Ensure code is clean, well-commented, and follows best practices.'',
      agent = Some (code_generator_agent app),
      expected_output =
        ''Complete codebase with all necessary files and implementations.''\<rparr>"

definition design_enhancement_task_args :: "code_app \<Rightarrow> task" where
  "design_enhancement_task_args app =
     \<lparr>description =
        ''Enhance the generated code with modern design and animations:\<newline>'' @
        ''        \<newline>'' @
        ''        Add:\<newline>'' @
        ''        1. Modern, responsive UI design\<newline>'' @
        ''        2. CSS animations and transitions\<newline>'' @
        ''        3. Interactive elements\<newline>'' @
        ''        4. Loading states and progress indicators\<newline>'' @
        ''        5. Error handling with user-friendly messages\<newline>'' @
        ''        6. Mobile-responsive design\<newline>'' @
        ''        7. Accessibility features\<newline>'' @
        ''        8. Performance optimizations\<newline>'' @
        ''        \<newline>'' @
        ''        Focus on creating an engaging, professional user experience.'',
      agent = Some (design_enhancer_agent app),
      expected_output =
        ''Enhanced code with modern UI/UX, animations, and interactive features.''\<rparr>"

definition error_fixing_task_args :: "code_app \<Rightarrow> task" where
  "error_fixing_task_args app =
     \<lparr>description =
        ''Review and fix all errors in the code:\<newline>'' @
        ''        \<newline>'' @
        ''        Check for:\<newline>'' @
        ''        1. Syntax errors\<newline>'' @
        ''        2. Logic errors\<newline>'' @
        ''        3. Import/dependency issues\<newline>'' @
        ''        4. Configuration problems\<newline>'' @
        ''        5. Security vulnerabilities\<newline>'' @
        ''        6. Performance issues\<newline>'' @
        ''        7. Compatibility problems\<newline>'' @
        ''        8. Code optimization opportunities\<newline>'' @
        ''        \<newline>'' @
        ''        Provide clean, error-free, optimized code.'',
      agent = Some (error_fixer_agent app),
      expected_output =
        ''Clean, error-free, and optimized code with all issues resolved.''\<rparr>"

definition testing_task_args :: "code_app \<Rightarrow> task" where
  "testing_task_args app =
     \<lparr>description =
        ''Test the code comprehensively:\<newline>'' @
        ''        \<newline>'' @
        ''        Perform:\<newline>'' @
        ''        1. Unit testing\<newline>'' @
        ''        2. Integration testing\<newline>'' @
        ''        3. User interface testing\<newline>'' @
        ''        4. Performance testing\<newline>'' @
        ''        5. Error handling testing\<newline>'' @
        ''        6. Edge case testing\<newline>'' @
        ''        7. Cross-browser/platform testing\<newline>'' @
        ''        8. Security testing\<newline>'' @
        ''        \<newline>'' @
        ''        Provide test results and ensure everything works correctly.'',
      agent = Some (testing_agent app),
      expected_output =
        ''Comprehensive test results confirming error-free execution and proper '' @
        ''functionality.''\<rparr>"

definition delivery_task_args :: "code_app \<Rightarrow> task" where
  "delivery_task_args app =
     \<lparr>description =
        ''Package and present the final code solution:\<newline>'' @
        ''        \<newline>'' @
        ''        Provide:\<newline>'' @
        ''        1. Complete, organized codebase\<newline>'' @
        ''        2. Detailed README with setup instructions\<newline>'' @
        ''        3. Architecture documentation\<newline>'' @
        ''        4. API documentation (if applicable)\<newline>'' @
        ''        5. User guide\<newline>'' @
        ''        6. Deployment instructions\<newline>'' @
        ''        7. Troubleshooting guide\<newline>'' @
        ''        8. Future enhancement suggestions\<newline>'' @
        ''        \<newline>'' @
        ''        Present everything in a professional, easy-to-understand format.'',
      agent = Some (delivery_agent app),
      expected_output =
        ''Complete, well-documented code solution ready for deployment and use.''\<rparr>"

text \<open>
  The eight tasks are built in this order, then the crew; the first constructor that
  raises ends the function with its exception.
\<close>

definition create_code_generation_crew ::
  "runtime \<Rightarrow> code_app \<Rightarrow> json \<Rightarrow> json \<Rightarrow> crew run" where
  "create_code_generation_crew rt app project_description requirements =
     andthen (Task rt (flowchart_task_args rt app project_description requirements))
       (\<lambda>flowchart_task.
     andthen (Task rt (choice_task_args rt app project_description requirements))
       (\<lambda>choice_task.
     andthen (Task rt (architecture_task_args rt app project_description))
       (\<lambda>architecture_task.
     andthen (Task rt (code_generation_task_args rt app project_description))
       (\<lambda>code_generation_task.
     andthen (Task rt (design_enhancement_task_args app)) (\<lambda>design_enhancement_task.
     andthen (Task rt (error_fixing_task_args app)) (\<lambda>error_fixing_task.
     andthen (Task rt (testing_task_args app)) (\<lambda>testing_task.
     andthen (Task rt (delivery_task_args app)) (\<lambda>delivery_task.
       Crew rt
         \<lparr>agents =
            [Some (flowchart_agent app), Some (choice_provider_agent app),
             Some (architecture_agent app), Some (code_generator_agent app),
             Some (design_enhancer_agent app), Some (error_fixer_agent app),
             Some (testing_agent app), Some (delivery_agent app)],
          tasks =
            [flowchart_task, choice_task, architecture_task,
             code_generation_task, design_enhancement_task, error_fixing_task,
             testing_task, delivery_task],
          process = sequential,
          crew_verbose = True\<rparr>))))))))"

subsection \<open>The handlers\<close>

text \<open>The dictionary of the success response, with its derived statistics.\<close>

definition generate_code_success :: "json \<Rightarrow> json \<Rightarrow> kickoff_result \<Rightarrow> json" where
  "generate_code_success project_description requirements result =
     JObj
       [(''success'', JBool True),
        (''generated_code'', JStr (result_str result)),
        (''project_description'', project_description),
        (''requirements'', requirements),
        (''stats'', JObj
           [(''agents_used'', JInt 8),
            (''processing_phases'', JArr
               [JStr ''Flowchart Generation'',
                JStr ''Technology Selection'',
                JStr ''Architecture Design'',
                JStr ''Code Generation'',
                JStr ''Design Enhancement'',
                JStr ''Error Fixing'',
                JStr ''Testing'',
                JStr ''Final Delivery'']),
            (''word_count'', JInt
               (if result_truthy result
                then int (length (py_split (result_str result))) else 0)),
            (''lines_of_code'', JInt
               (if result_truthy result
                then int (count_newlines (result_str result)) else 0)),
            (''processing_time'', JStr ''45-120 seconds'')])]"

text \<open>
  \<open>POST /generate_code\<close>. The body of the \<open>try\<close> block first, then the handler
  with its \<open>except Exception\<close> clause. Console output (\<open>print\<close>, the traceback) is
  not part of the response and is left out.
\<close>

definition generate_code_try ::
  "runtime \<Rightarrow> code_app \<Rightarrow> http_request \<Rightarrow> response run" where
  "generate_code_try rt app request =
     andthen (pure (get_json request)) (\<lambda>data.
     andthen (pure (py_get data ''project_description'' (JStr ''''))) (\<lambda>project_description.
     andthen (pure (py_get data ''requirements'' (JStr ''''))) (\<lambda>requirements.
       if \<not> truthy project_description
       then ok (JObj [(''error'', JStr ''Project description is required'')], 400)
       else
         andthen (create_code_generation_crew rt app project_description requirements)
           (\<lambda>crew.
         andthen (crew_kickoff rt crew) (\<lambda>result.
           ok (generate_code_success project_description requirements result, 200))))))"

definition generate_code ::
  "runtime \<Rightarrow> code_app \<Rightarrow> http_request \<Rightarrow> response \<times> call list" where
  "generate_code rt app request =
     (case generate_code_try rt app request of
        (Inr resp, cs) \<Rightarrow> (resp, cs)
      | (Inl e, cs) \<Rightarrow>
          ((JObj [(''success'', JBool False),
                  (''error'', JStr (''Failed to generate code: '' @ message e))],
            500), cs))"

text \<open>\<open>GET /health\<close> reads neither the globals nor the request.\<close>

definition health ::
  "runtime \<Rightarrow> code_app \<Rightarrow> http_request \<Rightarrow> response \<times> call list" where
  "health rt app request =
     ((JObj [(''status'', JStr ''healthy''), (''service'', JStr ''AI Code Generator'')], 200),
      [])"

section \<open>The news application (\<^verbatim>\<open>app_v2.py\<close>)\<close>

subsection \<open>Module level: the credential, the model handle and the four agents\<close>

text \<open>
  \<open>get_llm\<close>: the library's \<open>LLM\<close> object, or, when building it raises, a plain
  \<open>dict\<close> of settings. (The dict display cannot raise, so the third option of the
  source, \<open>None\<close>, is never reached.)
\<close>

definition get_llm :: "runtime \<Rightarrow> string \<Rightarrow> llm run" where
  "get_llm rt key =
     (case new_LLM rt \<lparr>model = ''gemini/gemini-1.5-flash'',
                        llm_api_key = key,
                        temperature = 7 / 10\<rparr> of
        (Inr l, cs) \<Rightarrow> (Inr l, cs)
      | (Inl e1, cs) \<Rightarrow>
          (Inr (LLM_dict \<lparr>model = ''gemini-1.5-flash'',
                           llm_api_key = key,
                           temperature = 7 / 10\<rparr>), cs))"

definition journalist_agent_args :: "llm \<Rightarrow> agent" where
  "journalist_agent_args l =
     \<lparr>role = ''Investigative Journalist'',
      goal = ''Research topics and gather information'',
      backstory =
        ''You research topics thoroughly.'',
      agent_verbose = False,
      allow_delegation = None,
      agent_llm = l\<rparr>"

definition news_writer_agent_args :: "llm \<Rightarrow> agent" where
  "news_writer_agent_args l =
     \<lparr>role = ''News Writer'',
      goal = ''Write engaging news articles'',
      backstory =
        ''You write compelling news articles.'',
      agent_verbose = False,
      allow_delegation = None,
      agent_llm = l\<rparr>"

definition sentence_cleaner_agent_args :: "llm \<Rightarrow> agent" where
  "sentence_cleaner_agent_args l =
     \<lparr>role = ''Content Editor'',
      goal = ''Edit articles for clarity'',
      backstory =
        ''You edit and improve text.'',
      agent_verbose = False,
      allow_delegation = None,
      agent_llm = l\<rparr>"

definition merger_agent_args :: "llm \<Rightarrow> agent" where
  "merger_agent_args l =
     \<lparr>role = ''Final Editor'',
      goal = ''Finalize articles'',
      backstory =
        ''You prepare final content.'',
      agent_verbose = False,
      allow_delegation = None,
      agent_llm = l\<rparr>"

definition test_agent_args :: "llm \<Rightarrow> agent" where
  "test_agent_args l =
     \<lparr>role = ''Test Agent'',
      goal = ''Test the API'',
      backstory =
        ''Testing agent.'',
      agent_verbose = False,
      allow_delegation = None,
      agent_llm = l\<rparr>"

text \<open>
  \<open>create_agents\<close>: the four agents, or four times \<open>None\<close> as soon as one constructor
  raises.
\<close>

definition create_agents ::
  "runtime \<Rightarrow> llm \<Rightarrow> (agent option \<times> agent option \<times> agent option \<times> agent option) run" where
  "create_agents rt l =
     (case andthen (Agent rt (journalist_agent_args l)) (\<lambda>journalist_agent.
           andthen (Agent rt (news_writer_agent_args l)) (\<lambda>news_writer_agent.
           andthen (Agent rt (sentence_cleaner_agent_args l)) (\<lambda>sentence_cleaner_agent.
           andthen (Agent rt (merger_agent_args l)) (\<lambda>merger_agent.
             ok (Some journalist_agent, Some news_writer_agent,
                 Some sentence_cleaner_agent, Some merger_agent))))) of
        (Inr r, cs) \<Rightarrow> (Inr r, cs)
      | (Inl e, cs) \<Rightarrow> (Inr (None, None, None, None), cs))"

text \<open>The globals of the module once it is loaded.\<close>

record news_app =
  api_key_v2 :: "string option"
  llm_v2 :: llm
  journalist_agent :: "agent option"
  news_writer_agent :: "agent option"
  sentence_cleaner_agent :: "agent option"
  merger_agent :: "agent option"

definition load_app_v2 :: "runtime \<Rightarrow> string option \<Rightarrow> news_app run" where
  "load_app_v2 rt getenv =
     (if \<not> str_truthy getenv
      then pure (Inl (Exception ''GEMINI_API_KEY not found in environment variables''))
      else
        andthen (get_llm rt (the_str getenv)) (\<lambda>llm.
        andthen (create_agents rt llm) (\<lambda>(a1, a2, a3, a4).
          ok \<lparr>api_key_v2 = getenv,
              llm_v2 = llm,
              journalist_agent = a1,
              news_writer_agent = a2,
              sentence_cleaner_agent = a3,
              merger_agent = a4\<rparr>)))"

subsection \<open>The pipeline builder \<open>create_news_crew\<close>\<close>

definition research_task_args :: "runtime \<Rightarrow> news_app \<Rightarrow> json \<Rightarrow> task" where
  "research_task_args rt app topic =
     \<lparr>description =
        ''Research the topic: '' @
        py_str rt topic @
        ''. Provide key facts and information.'',
      agent = journalist_agent app,
      expected_output =
        ''Research findings about the topic.''\<rparr>"

definition writing_task_args :: "runtime \<Rightarrow> news_app \<Rightarrow> json \<Rightarrow> task" where
  "writing_task_args rt app topic =
     \<lparr>description =
        ''Write a news article about '' @
        py_str rt topic @
        '' based on the research.'',
      agent = news_writer_agent app,
      expected_output =
        ''A complete news article.''\<rparr>"

definition cleaning_task_args :: "news_app \<Rightarrow> task" where
  "cleaning_task_args app =
     \<lparr>description =
        ''Edit the article for grammar and clarity.'',
      agent = sentence_cleaner_agent app,
      expected_output =
        ''A polished article.''\<rparr>"

definition merger_task_args :: "news_app \<Rightarrow> task" where
  "merger_task_args app =
     \<lparr>description =
        ''Finalize the article for publication.'',
      agent = merger_agent app,
      expected_output =
        ''Final publication-ready article.''\<rparr>"

text \<open>
  The four tasks, then the crew. The function catches every exception itself and
  returns \<open>None\<close> in its place; the exception's text goes to the console only.
\<close>

definition create_news_crew :: "runtime \<Rightarrow> news_app \<Rightarrow> json \<Rightarrow> crew option run" where
  "create_news_crew rt app topic =
     (case andthen (Task rt (research_task_args rt app topic)) (\<lambda>research_task.
           andthen (Task rt (writing_task_args rt app topic)) (\<lambda>writing_task.
           andthen (Task rt (cleaning_task_args app)) (\<lambda>cleaning_task.
           andthen (Task rt (merger_task_args app)) (\<lambda>merger_task.
             Crew rt
               \<lparr>agents =
                  [journalist_agent app, news_writer_agent app,
                   sentence_cleaner_agent app, merger_agent app],
                tasks = [research_task, writing_task, cleaning_task, merger_task],
                process = sequential,
                crew_verbose = False\<rparr>)))) of
        (Inr crew, cs) \<Rightarrow> (Inr (Some crew), cs)
      | (Inl e, cs) \<Rightarrow> (Inr None, cs))"

subsection \<open>The handlers\<close>

text \<open>\<open>all([...])\<close> over objects that are either an agent (true) or \<open>None\<close> (false).\<close>

definition py_all :: "'a option list \<Rightarrow> bool" where
  "py_all xs = list_all (\<lambda>x. x \<noteq> None) xs"

definition agents_not_initialized :: string where
  "agents_not_initialized =
     ''Agents not properly initialized. Please check your API key and try again.''"

text \<open>\<open>POST /generate_news\<close>: the \<open>try\<close> block, then the handler with its \<open>except\<close>.\<close>

definition generate_news_try ::
  "runtime \<Rightarrow> news_app \<Rightarrow> http_request \<Rightarrow> response run" where
  "generate_news_try rt app request =
     andthen (pure (get_json request)) (\<lambda>data.
     andthen (pure (py_get data ''topic'' (JStr ''''))) (\<lambda>topic.
       if \<not> truthy topic
       then ok (JObj [(''error'', JStr ''Topic is required'')], 400)
       else if \<not> py_all [journalist_agent app, news_writer_agent app,
                           sentence_cleaner_agent app, merger_agent app]
       then ok (JObj [(''success'', JBool False),
                      (''error'', JStr agents_not_initialized)],
                500)
       else
         andthen (create_news_crew rt app topic) (\<lambda>crew.
           case crew of
             None \<Rightarrow>
               ok (JObj [(''success'', JBool False),
                         (''error'', JStr ''Failed to create crew. Please try again.'')],
                   500)
           | Some c \<Rightarrow>
               andthen (crew_kickoff rt c) (\<lambda>result.
                 ok (JObj [(''success'', JBool True),
                           (''article'', JStr (result_str result))],
                     200)))))"

text \<open>
  The \<open>except\<close> clause rewrites the exception's text before it answers: two
  substring tests on the text in upper case, in this order.
\<close>

definition helpful_error_msg :: "string \<Rightarrow> string" where
  "helpful_error_msg error_msg =
     (if py_in ''API'' (py_upper error_msg)
      then ''API connection failed. Please check your internet connection and API key.''
      else if py_in ''MODEL'' (py_upper error_msg)
      then ''Model configuration error. Please try again.''
      else ''An error occurred: '' @ error_msg)"

definition generate_news ::
  "runtime \<Rightarrow> news_app \<Rightarrow> http_request \<Rightarrow> response \<times> call list" where
  "generate_news rt app request =
     (case generate_news_try rt app request of
        (Inr resp, cs) \<Rightarrow> (resp, cs)
      | (Inl e, cs) \<Rightarrow>
          ((JObj [(''success'', JBool False),
                  (''error'', JStr (helpful_error_msg (message e)))],
            500), cs))"

definition health_v2 ::
  "runtime \<Rightarrow> news_app \<Rightarrow> http_request \<Rightarrow> response \<times> call list" where
  "health_v2 rt app request = ((JObj [(''status'', JStr ''healthy'')], 200), [])"

text \<open>
  \<open>GET /test_api\<close>: every \<open>jsonify\<close> of the function is returned without a status,
  which Flask sends as 200.
\<close>

definition test_api ::
  "runtime \<Rightarrow> news_app \<Rightarrow> http_request \<Rightarrow> response \<times> call list" where
  "test_api rt app request =
     (if \<not> str_truthy (api_key_v2 app)
      then ((JObj [(''status'', JStr ''error''), (''message'', JStr ''API key not found'')],
             200), [])
      else
        (case Agent rt (test_agent_args (llm_v2 app)) of
           (Inr test_agent, cs) \<Rightarrow>
             ((JObj [(''status'', JStr ''success''), (''message'', JStr ''API is working'')],
               200), cs)
         | (Inl e, cs) \<Rightarrow>
             ((JObj [(''status'', JStr ''error''), (''message'', JStr (message e))],
               200), cs)))"

section \<open>Reading responses and call records\<close>

text \<open>A statistic of a success response: a field of its \<open>stats\<close> object.\<close>

definition stat :: "json \<Rightarrow> string \<Rightarrow> json option" where
  "stat body k = (case field body ''stats'' of None \<Rightarrow> None | Some s \<Rightarrow> field s k)"

text \<open>A call of the executor; a model call can only happen inside one.\<close>

fun is_kickoff :: "call \<Rightarrow> bool" where
  "is_kickoff (kickoff_call c) = True"
| "is_kickoff x = False"

section \<open>Concrete inputs\<close>

text \<open>
  A runtime whose constructors accept everything, except that \<open>Crew(...)\<close> has the
  given outcome, and whose executor has the given outcome.
\<close>

definition demo_runtime ::
  "py_exception option \<Rightarrow> py_exception + kickoff_result \<Rightarrow> runtime" where
  "demo_runtime crew_outcome kickoff_outcome =
     \<lparr>py_repr = (\<lambda>v. ''<value>''),
      LLM_init = (\<lambda>a. None),
      Agent_init = (\<lambda>a. None),
      Task_init = (\<lambda>t. None),
      Crew_init = (\<lambda>c. crew_outcome),
      kickoff = (\<lambda>c. kickoff_outcome)\<rparr>"

definition demo_llm :: llm where
  "demo_llm =
     LLM \<lparr>model = ''gemini/gemini-1.5-flash'', llm_api_key = ''key'', temperature = 7 / 10\<rparr>"

definition demo_code_app :: code_app where
  "demo_code_app =
     \<lparr>api_key = Some ''key'',
      llm = demo_llm,
      flowchart_agent = flowchart_agent_args demo_llm,
      choice_provider_agent = choice_provider_agent_args demo_llm,
      architecture_agent = architecture_agent_args demo_llm,
      code_generator_agent = code_generator_agent_args demo_llm,
      design_enhancer_agent = design_enhancer_agent_args demo_llm,
      error_fixer_agent = error_fixer_agent_args demo_llm,
      testing_agent = testing_agent_args demo_llm,
      delivery_agent = delivery_agent_args demo_llm\<rparr>"

definition demo_news_app :: news_app where
  "demo_news_app =
     \<lparr>api_key_v2 = Some ''key'',
      llm_v2 = demo_llm,
      journalist_agent = Some (journalist_agent_args demo_llm),
      news_writer_agent = Some (news_writer_agent_args demo_llm),
      sentence_cleaner_agent = Some (sentence_cleaner_agent_args demo_llm),
      merger_agent = Some (merger_agent_args demo_llm)\<rparr>"

text \<open>The news application after \<open>create_agents\<close> has failed.\<close>

definition agentless_news_app :: news_app where
  "agentless_news_app =
     \<lparr>api_key_v2 = Some ''key'',
      llm_v2 = demo_llm,
      journalist_agent = None,
      news_writer_agent = None,
      sentence_cleaner_agent = None,
      merger_agent = None\<rparr>"

text \<open>A request whose body parses to the given value.\<close>

definition post :: "json \<Rightarrow> http_request" where
  "post v = \<lparr>get_json = Inr v\<rparr>"

section \<open>Sequencing\<close>

lemma andthen_pure:
  "andthen (pure r) f = (case r of Inl e \<Rightarrow> (Inl e, []) | Inr x \<Rightarrow> f x)"
  by (simp add: pure_def split: sum.splits prod.splits)

lemma andthen_Task:
  "andthen (Task rt t) f =
     (case Task_init rt t of
        Some e \<Rightarrow> (Inl e, [Task_call t])
      | None \<Rightarrow> (fst (f t), Task_call t # snd (f t)))"
  by (simp add: Task_def split: option.splits prod.splits)

lemma andthen_Agent:
  "andthen (Agent rt a) f =
     (case Agent_init rt a of
        Some e \<Rightarrow> (Inl e, [Agent_call a])
      | None \<Rightarrow> (fst (f a), Agent_call a # snd (f a)))"
  by (simp add: Agent_def split: option.splits prod.splits)

lemma andthen_split:
  "andthen m f =
     (case fst m of
        Inl e \<Rightarrow> (Inl e, snd m)
      | Inr x \<Rightarrow> (fst (f x), snd m @ snd (f x)))"
  by (cases m) (simp split: sum.splits prod.splits)

section \<open>The code generation pipeline\<close>

lemma create_code_generation_crew_no_kickoff:
  "filter is_kickoff (snd (create_code_generation_crew rt app pd rq)) = []"
  by (simp add: create_code_generation_crew_def andthen_Task Crew_def split: option.splits)



section \<open>The handler \<open>generate_code\<close>, branch by branch\<close>

lemma generate_code_unfold:
  "generate_code rt app request =
     (case get_json request of
        Inl e \<Rightarrow>
          ((JObj [(''success'', JBool False),
                  (''error'', JStr (''Failed to generate code: '' @ message e))], 500), [])
      | Inr data \<Rightarrow>
          (case py_get data ''project_description'' (JStr '''') of
             Inl e \<Rightarrow>
               ((JObj [(''success'', JBool False),
                       (''error'', JStr (''Failed to generate code: '' @ message e))], 500), [])
           | Inr pd \<Rightarrow>
               (case py_get data ''requirements'' (JStr '''') of
                  Inl e \<Rightarrow>
                    ((JObj [(''success'', JBool False),
                            (''error'', JStr (''Failed to generate code: '' @ message e))],
                      500), [])
                | Inr rq \<Rightarrow>
                    if \<not> truthy pd
                    then ((JObj [(''error'', JStr ''Project description is required'')], 400),
                          [])
                    else
                      (case create_code_generation_crew rt app pd rq of
                         (Inl e, cs) \<Rightarrow>
                           ((JObj [(''success'', JBool False),
                                   (''error'',
                                    JStr (''Failed to generate code: '' @ message e))],
                             500), cs)
                       | (Inr c, cs) \<Rightarrow>
                           (case kickoff rt c of
                              Inl e \<Rightarrow>
                                ((JObj [(''success'', JBool False),
                                        (''error'',
                                         JStr (''Failed to generate code: '' @ message e))],
                                  500), cs @ [kickoff_call c])
                            | Inr r \<Rightarrow>
                                ((generate_code_success pd rq r, 200),
                                 cs @ [kickoff_call c]))))))"
  by (simp add: generate_code_def generate_code_try_def andthen_split pure_def
      crew_kickoff_def ok_def split: sum.splits prod.splits)

lemma generate_code_200:
  assumes "generate_code rt app request = ((body, 200), cs)"
  obtains data pd rq c cs1 r where
    "get_json request = Inr data"
    "py_get data ''project_description'' (JStr '''') = Inr pd"
    "py_get data ''requirements'' (JStr '''') = Inr rq"
    "truthy pd"
    "create_code_generation_crew rt app pd rq = (Inr c, cs1)"
    "kickoff rt c = Inr r"
    "cs = cs1 @ [kickoff_call c]"
    "body = generate_code_success pd rq r"
  using assms unfolding generate_code_unfold
  by (auto split: sum.splits prod.splits if_splits)

lemma word_count_of_success:
  "stat (generate_code_success pd rq r) ''word_count'' =
     Some (JInt (int (length (py_split (result_str r)))))"
  by (cases r) (simp_all add: stat_def generate_code_success_def py_split_def)

lemma lines_of_code_of_success:
  "stat (generate_code_success pd rq r) ''lines_of_code'' =
     Some (JInt (int (count_newlines (result_str r))))"
  by (cases r) (simp_all add: stat_def generate_code_success_def count_newlines_def)

lemma py_split_example: "py_split ''a b\<newline>c'' = [''a'', ''b'', ''c'']"
  by code_simp

lemma count_newlines_example: "count_newlines ''a b\<newline>c'' = 1"
  by code_simp

section \<open>The news pipeline\<close>

lemma create_news_crew_no_kickoff:
  "filter is_kickoff (snd (create_news_crew rt app topic)) = []"
  by (simp add: create_news_crew_def andthen_Task Crew_def split: option.splits)

lemma create_news_crew_returns: "\<exists>r. fst (create_news_crew rt app topic) = Inr r"
  by (simp add: create_news_crew_def andthen_Task Crew_def split: option.splits)



section \<open>The handler \<open>generate_news\<close>, branch by branch\<close>

lemma generate_news_unfold:
  "generate_news rt app request =
     (case get_json request of
        Inl e \<Rightarrow>
          ((JObj [(''success'', JBool False),
                  (''error'', JStr (helpful_error_msg (message e)))], 500), [])
      | Inr data \<Rightarrow>
          (case py_get data ''topic'' (JStr '''') of
             Inl e \<Rightarrow>
               ((JObj [(''success'', JBool False),
                       (''error'', JStr (helpful_error_msg (message e)))], 500), [])
           | Inr topic \<Rightarrow>
               if \<not> truthy topic
               then ((JObj [(''error'', JStr ''Topic is required'')], 400), [])
               else if \<not> py_all [journalist_agent app, news_writer_agent app,
                                   sentence_cleaner_agent app, merger_agent app]
               then ((JObj [(''success'', JBool False),
                            (''error'', JStr agents_not_initialized)], 500), [])
               else
                 (case create_news_crew rt app topic of
                    (Inl e, cs) \<Rightarrow>
                      ((JObj [(''success'', JBool False),
                              (''error'', JStr (helpful_error_msg (message e)))], 500), cs)
                  | (Inr None, cs) \<Rightarrow>
                      ((JObj [(''success'', JBool False),
                              (''error'', JStr ''Failed to create crew. Please try again.'')],
                        500), cs)
                  | (Inr (Some c), cs) \<Rightarrow>
                      (case kickoff rt c of
                         Inl e \<Rightarrow>
                           ((JObj [(''success'', JBool False),
                                   (''error'', JStr (helpful_error_msg (message e)))],
                             500), cs @ [kickoff_call c])
                       | Inr r \<Rightarrow>
                           ((JObj [(''success'', JBool True),
                                   (''article'', JStr (result_str r))], 200),
                            cs @ [kickoff_call c])))))"
  by (simp add: generate_news_def generate_news_try_def andthen_split pure_def
      crew_kickoff_def ok_def split: sum.splits prod.splits option.splits)

lemma no_kickoff_member: "filter is_kickoff cs = [] \<Longrightarrow> kickoff_call c \<notin> set cs"
  by (auto simp add: filter_empty_conv)

section \<open>Runtimes whose constructors accept\<close>

lemma create_code_generation_crew_accepts:
  assumes "\<forall>t. Task_init rt t = None" and "\<forall>c. Crew_init rt c = None"
  shows "\<exists>c cs. create_code_generation_crew rt app pd rq = (Inr c, cs)"
  using assms
  by (simp add: create_code_generation_crew_def andthen_Task Crew_def)

lemma create_news_crew_accepts:
  assumes "\<forall>t. Task_init rt t = None" and "\<forall>c. Crew_init rt c = None"
  shows "\<exists>c cs. create_news_crew rt app topic = (Inr (Some c), cs)"
  using assms
  by (simp add: create_news_crew_def andthen_Task Crew_def)

lemma demo_runtime_simps:
  "py_repr (demo_runtime a b) v = ''<value>''"
  "LLM_init (demo_runtime a b) l = None"
  "Agent_init (demo_runtime a b) g = None"
  "Task_init (demo_runtime a b) t = None"
  "Crew_init (demo_runtime a b) c = a"
  "kickoff (demo_runtime a b) c = b"
  by (simp_all add: demo_runtime_def)

lemma demo_news_app_agents:
  "py_all [journalist_agent demo_news_app, news_writer_agent demo_news_app,
           sentence_cleaner_agent demo_news_app, merger_agent demo_news_app]"
  by (simp add: py_all_def demo_news_app_def)

section \<open>Start of the applications\<close>

text \<open>Without a credential neither module loads, and nothing of the library is called.\<close>

lemma load_without_credential:
  "load_app rt None =
     (Inl (Exception ''GEMINI_API_KEY not found in environment variables''), [])"
  "load_app rt (Some '''') =
     (Inl (Exception ''GEMINI_API_KEY not found in environment variables''), [])"
  "load_app_v2 rt None =
     (Inl (Exception ''GEMINI_API_KEY not found in environment variables''), [])"
  "load_app_v2 rt (Some '''') =
     (Inl (Exception ''GEMINI_API_KEY not found in environment variables''), [])"
  by (simp_all add: load_app_def load_app_v2_def str_truthy_def pure_def)

text \<open>The concrete applications are what loading gives on an accepting runtime.\<close>

lemma demo_code_app_loaded:
  "fst (load_app (demo_runtime a k) (Some ''key'')) = Inr demo_code_app"
  by (simp add: load_app_def str_truthy_def the_str_def new_LLM_def Agent_def andthen_split
      ok_def demo_runtime_simps demo_code_app_def demo_llm_def)

lemma demo_news_app_loaded:
  "fst (load_app_v2 (demo_runtime a k) (Some ''key'')) = Inr demo_news_app"
  by (simp add: load_app_v2_def get_llm_def create_agents_def str_truthy_def the_str_def
      new_LLM_def Agent_def andthen_split ok_def demo_runtime_simps demo_news_app_def
      demo_llm_def)

text \<open>After a failed start the four agents are all \<open>None\<close>; otherwise all are present.\<close>

lemma create_agents_all_or_none:
  "\<exists>cs. create_agents rt l = (Inr (None, None, None, None), cs) \<or>
        create_agents rt l =
          (Inr (Some (journalist_agent_args l), Some (news_writer_agent_args l),
                Some (sentence_cleaner_agent_args l), Some (merger_agent_args l)), cs)"
  by (simp add: create_agents_def andthen_Agent ok_def split: option.splits)

lemma create_agents_failed:
  assumes "Agent_init rt (journalist_agent_args l) = Some e"
  shows "create_agents rt l =
           (Inr (None, None, None, None), [Agent_call (journalist_agent_args l)])"
  using assms by (simp add: create_agents_def andthen_Agent)

section \<open>Runs on the concrete inputs\<close>

lemma demo_generate_code:
  "fst (generate_code (demo_runtime None (Inr r)) app
          (post (JObj [(''project_description'', JStr ''a shop'')]))) =
     (generate_code_success (JStr ''a shop'') (JStr '''') r, 200)"
proof -
  have "\<exists>c cs.
      create_code_generation_crew (demo_runtime None (Inr r)) app (JStr ''a shop'') (JStr '''') =
        (Inr c, cs)"
    by (rule create_code_generation_crew_accepts) (simp_all add: demo_runtime_simps)
  then obtain c cs where
    "create_code_generation_crew (demo_runtime None (Inr r)) app (JStr ''a shop'') (JStr '''') =
       (Inr c, cs)"
    by blast
  then show ?thesis
    by (simp add: generate_code_unfold post_def demo_runtime_simps)
qed

section \<open>Statistics of the success response\<close>

lemma raw_example:
  "length (py_split [CHR ''a'', CHR '' '', CHR ''b'', CHR 0x5C, CHR ''n'', CHR ''c'']) = 2"
  "count_newlines [CHR ''a'', CHR '' '', CHR ''b'', CHR 0x5C, CHR ''n'', CHR ''c''] = 0"
  by code_simp+

text \<open>
  C1 (as amended). Whenever \<open>/generate_code\<close> answers 200, the executor has returned a
  result \<open>r\<close>; the response carries the text of \<open>r\<close>, its \<open>word_count\<close> is the number of
  words of \<open>r.split()\<close> and its \<open>lines_of_code\<close> the number of newline characters of \<open>r\<close>.
  For the text \<open>a b\nc\<close> the word count is 3 (the newline separates words as the space
  does) and the line count is 1.
\<close>

theorem generate_code_word_and_line_count:
  assumes "generate_code rt app request = ((body, 200), cs)"
  shows "\<exists>c r. kickoff rt c = Inr r \<and> last cs = kickoff_call c \<and>
           field body ''generated_code'' = Some (JStr (result_str r)) \<and>
           stat body ''word_count'' = Some (JInt (int (length (py_split (result_str r))))) \<and>
           stat body ''lines_of_code'' = Some (JInt (int (count_newlines (result_str r)))) \<and>
           (result_str r = ''a b\<newline>c'' \<longrightarrow>
              stat body ''word_count'' = Some (JInt 3) \<and>
              stat body ''lines_of_code'' = Some (JInt 1))"
proof -
  from assms obtain pd rq c cs1 r where
    run: "kickoff rt c = Inr r" and
    calls: "cs = cs1 @ [kickoff_call c]" and
    body: "body = generate_code_success pd rq r"
    by (rule generate_code_200)
  have code: "field body ''generated_code'' = Some (JStr (result_str r))"
    by (simp add: body generate_code_success_def)
  have words: "stat body ''word_count'' = Some (JInt (int (length (py_split (result_str r)))))"
    by (simp add: body word_count_of_success)
  have lines: "stat body ''lines_of_code'' = Some (JInt (int (count_newlines (result_str r))))"
    by (simp add: body lines_of_code_of_success)
  have example: "result_str r = ''a b\<newline>c'' \<longrightarrow>
      stat body ''word_count'' = Some (JInt 3) \<and> stat body ''lines_of_code'' = Some (JInt 1)"
    using words lines by (simp add: py_split_example count_newlines_example)
  from calls have "last cs = kickoff_call c" by simp
  with run code words lines example show ?thesis by blast
qed

text \<open>
  The claim's own example fails: for the result \<open>a b\nc\<close> the handler reports three
  words, not two. (Were \<open>\n\<close> read as a backslash and the letter \<open>n\<close>, the text would
  have two words but no newline: no reading gives two words and one line.)
\<close>

theorem word_count_example_counterexample:
  "py_split ''a b\<newline>c'' = [''a'', ''b'', ''c''] \<and>
   stat (fst (fst (generate_code (demo_runtime None (Inr (CrewOutput ''a b\<newline>c'')))
                     demo_code_app
                     (post (JObj [(''project_description'', JStr ''a shop'')])))))
        ''word_count'' = Some (JInt 3) \<and>
   stat (fst (fst (generate_code (demo_runtime None (Inr (CrewOutput ''a b\<newline>c'')))
                     demo_code_app
                     (post (JObj [(''project_description'', JStr ''a shop'')])))))
        ''word_count'' \<noteq> Some (JInt 2) \<and>
   length (py_split [CHR ''a'', CHR '' '', CHR ''b'', CHR 0x5C, CHR ''n'', CHR ''c'']) = 2 \<and>
   count_newlines [CHR ''a'', CHR '' '', CHR ''b'', CHR 0x5C, CHR ''n'', CHR ''c''] = 0"
  by (simp add: demo_generate_code word_count_of_success py_split_example raw_example)

theorem generate_code_word_and_line_count_witness:
  "snd (fst (generate_code (demo_runtime None (Inr (CrewOutput ''a b\<newline>c'')))
               demo_code_app
               (post (JObj [(''project_description'', JStr ''a shop'')])))) = 200 \<and>
   stat (fst (fst (generate_code (demo_runtime None (Inr (CrewOutput ''a b\<newline>c'')))
                     demo_code_app
                     (post (JObj [(''project_description'', JStr ''a shop'')])))))
        ''word_count'' = Some (JInt 3) \<and>
   stat (fst (fst (generate_code (demo_runtime None (Inr (CrewOutput ''a b\<newline>c'')))
                     demo_code_app
                     (post (JObj [(''project_description'', JStr ''a shop'')])))))
        ''lines_of_code'' = Some (JInt 1)"
proof -
  let ?rt = "demo_runtime None (Inr (CrewOutput ''a b\<newline>c''))"
  let ?run = "generate_code ?rt demo_code_app
                (post (JObj [(''project_description'', JStr ''a shop'')]))"
  have ok: "snd (fst ?run) = 200"
    by (simp add: demo_generate_code)
  then have "?run = ((fst (fst ?run), 200), snd ?run)"
    by (metis prod.collapse)
  from generate_code_word_and_line_count [OF this]
  obtain c r where
    "kickoff ?rt c = Inr r" and
    "result_str r = ''a b\<newline>c'' \<longrightarrow>
       stat (fst (fst ?run)) ''word_count'' = Some (JInt 3) \<and>
       stat (fst (fst ?run)) ''lines_of_code'' = Some (JInt 1)"
    by blast
  then show ?thesis using ok by (auto simp add: demo_runtime_simps)
qed

section \<open>Validation of the primary input\<close>

lemma py_get_object:
  "py_get data k d = Inr v \<Longrightarrow> \<exists>kvs. data = JObj kvs"
  by (cases data) simp_all







section \<open>Failures while the pipeline is built\<close>







section \<open>Failures of the executor\<close>

lemma generate_code_kickoff_raised:
  assumes "generate_code rt app request = (resp, cs)"
    and "kickoff_call c \<in> set cs"
    and "kickoff rt c = Inl e"
  shows "resp = (JObj [(''success'', JBool False),
                       (''error'', JStr (''Failed to generate code: '' @ message e))], 500)"
proof -
  have none: "\<And>pd rq r cs1.
      create_code_generation_crew rt app pd rq = (r, cs1) \<Longrightarrow> kickoff_call c \<notin> set cs1"
  proof -
    fix pd rq r cs1
    assume "create_code_generation_crew rt app pd rq = (r, cs1)"
    then have "cs1 = snd (create_code_generation_crew rt app pd rq)" by simp
    then show "kickoff_call c \<notin> set cs1"
      using no_kickoff_member [OF create_code_generation_crew_no_kickoff] by simp
  qed
  show ?thesis
    using assms unfolding generate_code_unfold
    by (auto split: sum.splits prod.splits if_splits dest: none)
qed

lemma generate_news_kickoff_raised:
  assumes "generate_news rt app request = (resp, cs)"
    and "kickoff_call c \<in> set cs"
    and "kickoff rt c = Inl e"
  shows "resp = (JObj [(''success'', JBool False),
                       (''error'', JStr (helpful_error_msg (message e)))], 500)"
proof -
  have none: "\<And>topic r cs1.
      create_news_crew rt app topic = (r, cs1) \<Longrightarrow> kickoff_call c \<notin> set cs1"
  proof -
    fix topic r cs1
    assume "create_news_crew rt app topic = (r, cs1)"
    then have "cs1 = snd (create_news_crew rt app topic)" by simp
    then show "kickoff_call c \<notin> set cs1"
      using no_kickoff_member [OF create_news_crew_no_kickoff] by simp
  qed
  show ?thesis
    using assms unfolding generate_news_unfold
    by (auto split: sum.splits prod.splits if_splits option.splits dest: none)
qed

lemma helpful_error_msg_example:
  "helpful_error_msg ''stage 3 timed out'' = ''An error occurred: stage 3 timed out''"
  by code_simp

text \<open>
  C4. Let the request be valid and the pipeline be built. When the executor then raises,
  the handler returns one failure response: status 500, \<open>success\<close> false and a text in
  \<open>error\<close>, and nothing else; there is no \<open>generated_code\<close>, \<open>stats\<close> or \<open>article\<close>
  field, hence no output of any stage. Conversely, whenever a call of the executor that
  raises stands in the call record of a request, the response is that failure response.
  This holds in both applications.
\<close>

theorem executor_failure_single_response:
  "(get_json request = Inr data \<and>
    py_get data ''project_description'' (JStr '''') = Inr pd \<and>
    py_get data ''requirements'' (JStr '''') = Inr rq \<and> truthy pd \<and>
    create_code_generation_crew rt app pd rq = (Inr c, cs) \<and>
    kickoff rt c = Inl e \<longrightarrow>
      generate_code rt app request =
        ((JObj [(''success'', JBool False),
                (''error'', JStr (''Failed to generate code: '' @ message e))], 500),
         cs @ [kickoff_call c]) \<and>
      field (fst (fst (generate_code rt app request))) ''generated_code'' = None \<and>
      field (fst (fst (generate_code rt app request))) ''stats'' = None) \<and>
   (get_json request' = Inr data' \<and>
    py_get data' ''topic'' (JStr '''') = Inr topic \<and> truthy topic \<and>
    py_all [journalist_agent app', news_writer_agent app',
            sentence_cleaner_agent app', merger_agent app'] \<and>
    create_news_crew rt app' topic = (Inr (Some c'), cs') \<and>
    kickoff rt c' = Inl e' \<longrightarrow>
      generate_news rt app' request' =
        ((JObj [(''success'', JBool False),
                (''error'', JStr (helpful_error_msg (message e')))], 500),
         cs' @ [kickoff_call c']) \<and>
      field (fst (fst (generate_news rt app' request'))) ''article'' = None) \<and>
   (generate_code rt app request = (resp, rs) \<and> kickoff_call k \<in> set rs \<and>
    kickoff rt k = Inl x \<longrightarrow>
      resp = (JObj [(''success'', JBool False),
                    (''error'', JStr (''Failed to generate code: '' @ message x))], 500) \<and>
      field (fst resp) ''generated_code'' = None \<and> field (fst resp) ''stats'' = None) \<and>
   (generate_news rt app' request' = (resp', rs') \<and> kickoff_call k' \<in> set rs' \<and>
    kickoff rt k' = Inl x' \<longrightarrow>
      resp' = (JObj [(''success'', JBool False),
                     (''error'', JStr (helpful_error_msg (message x')))], 500) \<and>
      field (fst resp') ''article'' = None)"
proof (intro conjI impI)
  assume a: "get_json request = Inr data \<and>
    py_get data ''project_description'' (JStr '''') = Inr pd \<and>
    py_get data ''requirements'' (JStr '''') = Inr rq \<and> truthy pd \<and>
    create_code_generation_crew rt app pd rq = (Inr c, cs) \<and>
    kickoff rt c = Inl e"
  then show r: "generate_code rt app request =
      ((JObj [(''success'', JBool False),
              (''error'', JStr (''Failed to generate code: '' @ message e))], 500),
       cs @ [kickoff_call c])"
    by (simp add: generate_code_unfold)
  show "field (fst (fst (generate_code rt app request))) ''generated_code'' = None"
    by (simp add: r)
  show "field (fst (fst (generate_code rt app request))) ''stats'' = None"
    by (simp add: r)
next
  assume a: "get_json request' = Inr data' \<and>
    py_get data' ''topic'' (JStr '''') = Inr topic \<and> truthy topic \<and>
    py_all [journalist_agent app', news_writer_agent app',
            sentence_cleaner_agent app', merger_agent app'] \<and>
    create_news_crew rt app' topic = (Inr (Some c'), cs') \<and>
    kickoff rt c' = Inl e'"
  then show r: "generate_news rt app' request' =
      ((JObj [(''success'', JBool False),
              (''error'', JStr (helpful_error_msg (message e')))], 500),
       cs' @ [kickoff_call c'])"
    by (simp add: generate_news_unfold)
  show "field (fst (fst (generate_news rt app' request'))) ''article'' = None"
    by (simp add: r)
next
  assume "generate_code rt app request = (resp, rs) \<and> kickoff_call k \<in> set rs \<and>
    kickoff rt k = Inl x"
  then have r: "resp = (JObj [(''success'', JBool False),
      (''error'', JStr (''Failed to generate code: '' @ message x))], 500)"
    using generate_code_kickoff_raised by blast
  then show "resp = (JObj [(''success'', JBool False),
      (''error'', JStr (''Failed to generate code: '' @ message x))], 500)" .
  from r show "field (fst resp) ''generated_code'' = None" by simp
  from r show "field (fst resp) ''stats'' = None" by simp
next
  assume "generate_news rt app' request' = (resp', rs') \<and> kickoff_call k' \<in> set rs' \<and>
    kickoff rt k' = Inl x'"
  then have r: "resp' = (JObj [(''success'', JBool False),
      (''error'', JStr (helpful_error_msg (message x')))], 500)"
    using generate_news_kickoff_raised by blast
  then show "resp' = (JObj [(''success'', JBool False),
      (''error'', JStr (helpful_error_msg (message x')))], 500)" .
  from r show "field (fst resp') ''article'' = None" by simp
qed

theorem executor_failure_single_response_witness:
  "fst (generate_code (demo_runtime None (Inl (Exception ''stage 3 timed out''))) demo_code_app
          (post (JObj [(''project_description'', JStr ''a shop'')]))) =
     (JObj [(''success'', JBool False),
            (''error'', JStr ''Failed to generate code: stage 3 timed out'')], 500) \<and>
   fst (generate_news (demo_runtime None (Inl (Exception ''stage 3 timed out'')))
          demo_news_app (post (JObj [(''topic'', JStr ''rain'')]))) =
     (JObj [(''success'', JBool False),
            (''error'', JStr ''An error occurred: stage 3 timed out'')], 500) \<and>
   field (fst (fst (generate_code (demo_runtime None (Inl (Exception ''stage 3 timed out'')))
                      demo_code_app
                      (post (JObj [(''project_description'', JStr ''a shop'')])))))
     ''generated_code'' = None \<and>
   field (fst (fst (generate_news (demo_runtime None (Inl (Exception ''stage 3 timed out'')))
                      demo_news_app (post (JObj [(''topic'', JStr ''rain'')])))))
     ''article'' = None"
proof -
  let ?e = "Exception ''stage 3 timed out''"
  let ?rt = "demo_runtime None (Inl ?e)"
  let ?req = "post (JObj [(''project_description'', JStr ''a shop'')])"
  let ?req' = "post (JObj [(''topic'', JStr ''rain'')])"
  have "\<exists>c cs. create_code_generation_crew ?rt demo_code_app (JStr ''a shop'') (JStr '''') =
      (Inr c, cs)"
    by (rule create_code_generation_crew_accepts) (simp_all add: demo_runtime_simps)
  then obtain c cs where code:
    "create_code_generation_crew ?rt demo_code_app (JStr ''a shop'') (JStr '''') = (Inr c, cs)"
    by blast
  have "\<exists>c cs. create_news_crew ?rt demo_news_app (JStr ''rain'') = (Inr (Some c), cs)"
    by (rule create_news_crew_accepts) (simp_all add: demo_runtime_simps)
  then obtain c' cs' where news:
    "create_news_crew ?rt demo_news_app (JStr ''rain'') = (Inr (Some c'), cs')"
    by blast
  have valid: "get_json ?req = Inr (JObj [(''project_description'', JStr ''a shop'')]) \<and>
    py_get (JObj [(''project_description'', JStr ''a shop'')]) ''project_description''
      (JStr '''') = Inr (JStr ''a shop'') \<and>
    py_get (JObj [(''project_description'', JStr ''a shop'')]) ''requirements''
      (JStr '''') = Inr (JStr '''') \<and> truthy (JStr ''a shop'') \<and>
    create_code_generation_crew ?rt demo_code_app (JStr ''a shop'') (JStr '''') = (Inr c, cs) \<and>
    kickoff ?rt c = Inl ?e"
    using code by (simp add: post_def demo_runtime_simps)
  have valid': "get_json ?req' = Inr (JObj [(''topic'', JStr ''rain'')]) \<and>
    py_get (JObj [(''topic'', JStr ''rain'')]) ''topic'' (JStr '''') = Inr (JStr ''rain'') \<and>
    truthy (JStr ''rain'') \<and>
    py_all [journalist_agent demo_news_app, news_writer_agent demo_news_app,
            sentence_cleaner_agent demo_news_app, merger_agent demo_news_app] \<and>
    create_news_crew ?rt demo_news_app (JStr ''rain'') = (Inr (Some c'), cs') \<and>
    kickoff ?rt c' = Inl ?e"
    using news by (simp add: post_def demo_runtime_simps demo_news_app_agents)
  note code_half = executor_failure_single_response [THEN conjunct1, THEN mp, OF valid]
  note news_half =
    executor_failure_single_response [THEN conjunct2, THEN conjunct1, THEN mp, OF valid']
  from code_half news_half show ?thesis
    by (simp add: helpful_error_msg_example)
qed

section \<open>The rewritten error text of the news application\<close>

lemma generate_news_try_raises:
  "generate_news_try (demo_runtime None (Inl e)) demo_news_app
     (post (JObj [(''topic'', JStr ''rain'')])) =
   (Inl e, snd (generate_news_try (demo_runtime None (Inl e)) demo_news_app
                  (post (JObj [(''topic'', JStr ''rain'')]))))"
proof -
  have "\<exists>c cs. create_news_crew (demo_runtime None (Inl e)) demo_news_app (JStr ''rain'') =
      (Inr (Some c), cs)"
    by (rule create_news_crew_accepts) (simp_all add: demo_runtime_simps)
  then obtain c cs where
    "create_news_crew (demo_runtime None (Inl e)) demo_news_app (JStr ''rain'') =
       (Inr (Some c), cs)"
    by blast
  then show ?thesis
    by (simp add: generate_news_try_def andthen_split pure_def crew_kickoff_def ok_def
        post_def demo_runtime_simps demo_news_app_agents)
qed

lemma upper_examples:
  "py_in ''API'' (py_upper ''Invalid api key'')"
  "\<not> py_in ''API'' (py_upper ''unknown model name'')"
  "py_in ''MODEL'' (py_upper ''unknown model name'')"
  "\<not> py_in ''API'' (py_upper ''disk full'')"
  "\<not> py_in ''MODEL'' (py_upper ''disk full'')"
  by code_simp+

text \<open>
  C5. Every exception that reaches the \<open>except\<close> clause of \<open>/generate_news\<close> is answered
  with status 500 and an error text chosen from the exception's text \<open>e\<close>: the
  connectivity message if \<open>e\<close> in upper case contains \<open>API\<close>; otherwise the configuration
  message if it contains \<open>MODEL\<close>; otherwise \<open>e\<close> itself after the prefix
  \<open>An error occurred: \<close>.
\<close>

theorem news_error_rewritten:
  assumes "generate_news_try rt app request = (Inl e, cs)"
  shows "generate_news rt app request =
           ((JObj [(''success'', JBool False),
                   (''error'', JStr
                      (if py_in ''API'' (py_upper (message e))
                       then ''API connection failed. Please check your internet '' @
                            ''connection and API key.''
                       else if py_in ''MODEL'' (py_upper (message e))
                       then ''Model configuration error. Please try again.''
                       else ''An error occurred: '' @ message e))], 500), cs)"
  using assms by (simp add: generate_news_def helpful_error_msg_def)

theorem news_error_rewritten_witness:
  "fst (generate_news (demo_runtime None (Inl (Exception ''Invalid api key''))) demo_news_app
          (post (JObj [(''topic'', JStr ''rain'')]))) =
     (JObj [(''success'', JBool False),
            (''error'', JStr (''API connection failed. Please check your internet '' @
                              ''connection and API key.''))], 500) \<and>
   fst (generate_news (demo_runtime None (Inl (Exception ''unknown model name'')))
          demo_news_app (post (JObj [(''topic'', JStr ''rain'')]))) =
     (JObj [(''success'', JBool False),
            (''error'', JStr ''Model configuration error. Please try again.'')], 500) \<and>
   fst (generate_news (demo_runtime None (Inl (Exception ''disk full''))) demo_news_app
          (post (JObj [(''topic'', JStr ''rain'')]))) =
     (JObj [(''success'', JBool False),
            (''error'', JStr ''An error occurred: disk full'')], 500)"
  using news_error_rewritten [OF generate_news_try_raises [of "Exception ''Invalid api key''"]]
    news_error_rewritten [OF generate_news_try_raises [of "Exception ''unknown model name''"]]
    news_error_rewritten [OF generate_news_try_raises [of "Exception ''disk full''"]]
  by (simp add: upper_examples)

section \<open>Shape of the pipelines\<close>








section \<open>The health probes\<close>

text \<open>
  C7. \<open>GET /health\<close> answers 200 with \<open>status\<close> \<open>healthy\<close> in both applications, whatever
  the credential, the agents, the library and the request are, and calls nothing.
\<close>

theorem health_always_succeeds:
  "health rt app request =
     ((JObj [(''status'', JStr ''healthy''), (''service'', JStr ''AI Code Generator'')], 200),
      []) \<and>
   health_v2 rt' app' request' = ((JObj [(''status'', JStr ''healthy'')], 200), [])"
  by (simp add: health_def health_v2_def)

theorem health_always_succeeds_witness:
  "snd (fst (health (demo_runtime (Some (Exception ''bad credential''))
                       (Inl (Exception ''executor down''))) demo_code_app (post JNull))) = 200 \<and>
   field (fst (fst (health_v2 (demo_runtime (Some (Exception ''bad credential''))
                                 (Inl (Exception ''executor down'')))
                      agentless_news_app (post JNull)))) ''status'' = Some (JStr ''healthy'')"
  using health_always_succeeds
    [of "demo_runtime (Some (Exception ''bad credential'')) (Inl (Exception ''executor down''))"
        demo_code_app "post JNull"
        "demo_runtime (Some (Exception ''bad credential'')) (Inl (Exception ''executor down''))"
        agentless_news_app "post JNull"]
  by simp

section \<open>What a success response echoes\<close>

lemma py_get_truthy_present:
  assumes "py_get data k (JStr '''') = Inr v" and "truthy v"
  shows "\<exists>kvs. data = JObj kvs \<and> map_of kvs k = Some v"
  using assms by (cases data) (auto split: option.splits)

lemma py_get_of_object:
  "py_get (JObj kvs) k d = Inr v \<Longrightarrow> v = (case map_of kvs k of None \<Rightarrow> d | Some w \<Rightarrow> w)"
  by simp

text \<open>
  C8. A 200 response of \<open>/generate_code\<close> carries the \<open>project_description\<close> of the
  request unchanged and its \<open>requirements\<close> unchanged (the empty string when the request
  has none); its \<open>stats\<close> hold \<open>agents_used\<close> = 8 and the same list of eight phase names,
  whatever the input.
\<close>

theorem generate_code_success_echo:
  assumes "generate_code rt app request = ((body, 200), cs)"
  shows "\<exists>kvs pd.
           get_json request = Inr (JObj kvs) \<and>
           map_of kvs ''project_description'' = Some pd \<and>
           field body ''project_description'' = Some pd \<and>
           field body ''requirements'' =
             Some (case map_of kvs ''requirements'' of None \<Rightarrow> JStr '''' | Some v \<Rightarrow> v) \<and>
           stat body ''agents_used'' = Some (JInt 8) \<and>
           stat body ''processing_phases'' =
             Some (JArr [JStr ''Flowchart Generation'', JStr ''Technology Selection'',
                         JStr ''Architecture Design'', JStr ''Code Generation'',
                         JStr ''Design Enhancement'', JStr ''Error Fixing'',
                         JStr ''Testing'', JStr ''Final Delivery''])"
proof -
  from assms obtain data pd rq r where
    json: "get_json request = Inr data" and
    pd: "py_get data ''project_description'' (JStr '''') = Inr pd" and
    rq: "py_get data ''requirements'' (JStr '''') = Inr rq" and
    valid: "truthy pd" and
    body: "body = generate_code_success pd rq r"
    by (rule generate_code_200)
  from pd valid obtain kvs where
    data: "data = JObj kvs" and present: "map_of kvs ''project_description'' = Some pd"
    using py_get_truthy_present by blast
  from rq data have rq_eq:
    "rq = (case map_of kvs ''requirements'' of None \<Rightarrow> JStr '''' | Some v \<Rightarrow> v)"
    using py_get_of_object by blast
  have "field body ''project_description'' = Some pd"
    by (simp add: body generate_code_success_def)
  moreover have "field body ''requirements'' = Some rq"
    by (simp add: body generate_code_success_def)
  moreover have "stat body ''agents_used'' = Some (JInt 8)"
    by (simp add: body generate_code_success_def stat_def)
  moreover have "stat body ''processing_phases'' =
             Some (JArr [JStr ''Flowchart Generation'', JStr ''Technology Selection'',
                         JStr ''Architecture Design'', JStr ''Code Generation'',
                         JStr ''Design Enhancement'', JStr ''Error Fixing'',
                         JStr ''Testing'', JStr ''Final Delivery''])"
    by (simp add: body generate_code_success_def stat_def)
  ultimately show ?thesis
    using json data present rq_eq by blast
qed

lemma demo_generate_code_echo:
  "fst (generate_code (demo_runtime None (Inr r)) app
          (post (JObj [(''project_description'', JStr ''a shop''),
                       (''requirements'', JStr ''fast'')]))) =
     (generate_code_success (JStr ''a shop'') (JStr ''fast'') r, 200)"
proof -
  have "\<exists>c cs.
      create_code_generation_crew (demo_runtime None (Inr r)) app (JStr ''a shop'')
        (JStr ''fast'') = (Inr c, cs)"
    by (rule create_code_generation_crew_accepts) (simp_all add: demo_runtime_simps)
  then obtain c cs where
    "create_code_generation_crew (demo_runtime None (Inr r)) app (JStr ''a shop'')
       (JStr ''fast'') = (Inr c, cs)"
    by blast
  then show ?thesis
    by (simp add: generate_code_unfold post_def demo_runtime_simps)
qed

theorem generate_code_success_echo_witness:
  "snd (fst (generate_code (demo_runtime None (Inr (CrewOutput ''done''))) demo_code_app
               (post (JObj [(''project_description'', JStr ''a shop''),
                            (''requirements'', JStr ''fast'')])))) = 200 \<and>
   field (fst (fst (generate_code (demo_runtime None (Inr (CrewOutput ''done''))) demo_code_app
                      (post (JObj [(''project_description'', JStr ''a shop''),
                                   (''requirements'', JStr ''fast'')])))))
     ''project_description'' = Some (JStr ''a shop'') \<and>
   field (fst (fst (generate_code (demo_runtime None (Inr (CrewOutput ''done''))) demo_code_app
                      (post (JObj [(''project_description'', JStr ''a shop''),
                                   (''requirements'', JStr ''fast'')])))))
     ''requirements'' = Some (JStr ''fast'') \<and>
   stat (fst (fst (generate_code (demo_runtime None (Inr (CrewOutput ''done''))) demo_code_app
                     (post (JObj [(''project_description'', JStr ''a shop''),
                                  (''requirements'', JStr ''fast'')])))))
     ''agents_used'' = Some (JInt 8)"
proof -
  let ?rt = "demo_runtime None (Inr (CrewOutput ''done''))"
  let ?kvs = "[(''project_description'', JStr ''a shop''), (''requirements'', JStr ''fast'')]"
  let ?run = "generate_code ?rt demo_code_app (post (JObj ?kvs))"
  have ok: "snd (fst ?run) = 200"
    by (simp add: demo_generate_code_echo)
  then have "?run = ((fst (fst ?run), 200), snd ?run)"
    by (metis prod.collapse)
  from generate_code_success_echo [OF this]
  obtain kvs pd where
    "get_json (post (JObj ?kvs)) = Inr (JObj kvs)" and
    "map_of kvs ''project_description'' = Some pd" and
    "field (fst (fst ?run)) ''project_description'' = Some pd" and
    "field (fst (fst ?run)) ''requirements'' =
       Some (case map_of kvs ''requirements'' of None \<Rightarrow> JStr '''' | Some v \<Rightarrow> v)" and
    "stat (fst (fst ?run)) ''agents_used'' = Some (JInt 8)"
    by blast
  then show ?thesis using ok by (auto simp add: post_def)
qed

section \<open>The news application without agents\<close>

text \<open>
  C9. When one of the four agents of the news application is \<open>None\<close>, every
  \<open>/generate_news\<close> request with a valid topic is answered with status 500 and the fixed
  text \<open>Agents not properly initialized. Please check your API key and try again.\<close>,
  and no call is made into the library: no task, no crew, no executor.
\<close>

theorem agents_missing_rejected:
  assumes "get_json request = Inr (JObj kvs)"
    and "map_of kvs ''topic'' = Some topic"
    and "truthy topic"
    and "journalist_agent app = None \<or> news_writer_agent app = None \<or>
         sentence_cleaner_agent app = None \<or> merger_agent app = None"
  shows "generate_news rt app request =
           ((JObj [(''success'', JBool False),
                   (''error'', JStr (''Agents not properly initialized. '' @
                                     ''Please check your API key and try again.''))],
             500), [])"
proof -
  from assms(4) have "\<not> py_all [journalist_agent app, news_writer_agent app,
                               sentence_cleaner_agent app, merger_agent app]"
    by (auto simp add: py_all_def)
  with assms(1-3) show ?thesis
    by (simp add: generate_news_unfold agents_not_initialized_def)
qed

theorem agents_missing_rejected_witness:
  "generate_news (demo_runtime None (Inr (Str ''x''))) agentless_news_app
     (post (JObj [(''topic'', JStr ''rain'')])) =
     ((JObj [(''success'', JBool False),
             (''error'', JStr (''Agents not properly initialized. '' @
                               ''Please check your API key and try again.''))],
       500), [])"
proof -
  have "journalist_agent agentless_news_app = None \<or>
        news_writer_agent agentless_news_app = None \<or>
        sentence_cleaner_agent agentless_news_app = None \<or>
        merger_agent agentless_news_app = None"
    by (simp add: agentless_news_app_def)
  then show ?thesis
    by (intro agents_missing_rejected [where kvs = "[(''topic'', JStr ''rain'')]"
          and topic = "JStr ''rain''"]) (simp_all add: post_def)
qed

section \<open>The credential probe\<close>

text \<open>
  C10. \<open>GET /test_api\<close> always answers with status 200 and a body of exactly the two
  text fields \<open>status\<close> and \<open>message\<close>. Without a credential the body says \<open>error\<close> and
  \<open>API key not found\<close> and nothing is called; when the probe agent's constructor
  raises, the body says \<open>error\<close> with the exception's text; otherwise it says \<open>success\<close>.
\<close>

theorem test_api_always_200:
  "snd (fst (test_api rt app request)) = 200 \<and>
   (\<exists>s m. fst (fst (test_api rt app request)) =
            JObj [(''status'', JStr s), (''message'', JStr m)]) \<and>
   (\<not> str_truthy (api_key_v2 app) \<longrightarrow>
      test_api rt app request =
        ((JObj [(''status'', JStr ''error''), (''message'', JStr ''API key not found'')], 200),
         [])) \<and>
   (str_truthy (api_key_v2 app) \<and> Agent_init rt (test_agent_args (llm_v2 app)) = Some e \<longrightarrow>
      fst (test_api rt app request) =
        (JObj [(''status'', JStr ''error''), (''message'', JStr (message e))], 200)) \<and>
   (str_truthy (api_key_v2 app) \<and> Agent_init rt (test_agent_args (llm_v2 app)) = None \<longrightarrow>
      fst (test_api rt app request) =
        (JObj [(''status'', JStr ''success''), (''message'', JStr ''API is working'')], 200))"
  by (simp add: test_api_def Agent_def split: option.splits)

theorem test_api_always_200_witness:
  "test_api (demo_runtime None (Inr (Str ''x'')))
     (agentless_news_app\<lparr>api_key_v2 := None\<rparr>) (post JNull) =
     ((JObj [(''status'', JStr ''error''), (''message'', JStr ''API key not found'')], 200),
      []) \<and>
   fst (test_api (demo_runtime None (Inr (Str ''x''))) demo_news_app (post JNull)) =
     (JObj [(''status'', JStr ''success''), (''message'', JStr ''API is working'')], 200)"
proof -
  let ?rt = "demo_runtime None (Inr (Str ''x''))"
  have "\<not> str_truthy (api_key_v2 (agentless_news_app\<lparr>api_key_v2 := None\<rparr>))"
    by (simp add: str_truthy_def)
  moreover have "str_truthy (api_key_v2 demo_news_app) \<and>
      Agent_init ?rt (test_agent_args (llm_v2 demo_news_app)) = None"
    by (simp add: str_truthy_def demo_news_app_def demo_runtime_simps)
  ultimately show ?thesis
    using test_api_always_200 [of ?rt "agentless_news_app\<lparr>api_key_v2 := None\<rparr>" "post JNull"]
      test_api_always_200 [of ?rt demo_news_app "post JNull"]
    by blast
qed

end
